theory Spec2Isabelle
  imports Main "HOL-Library.AList"
begin

section \<open>legacyinstall: installing a Modrinth modpack\<close>

text \<open>
  A shallow embedding of \<^verbatim>\<open>legacyinstall.py\<close>. The program is a straight pipeline
  \<^verbatim>\<open>loadModpack\<close>, \<^verbatim>\<open>getMods\<close>, \<^verbatim>\<open>downloadMods\<close>, \<^verbatim>\<open>copyOverrides\<close>
  over the file system and the network. Every \<^verbatim>\<open>exit(1)\<close> of the source and every
  exception it lets escape is a value of the type \<open>error\<close>; the file system and the log of
  network requests are passed explicitly.
\<close>

subsection \<open>Errors\<close>

text \<open>
  The source leaves by \<^verbatim>\<open>exit(1)\<close> after printing one of eight messages; each is a
  constructor here (named as in the specification's taxonomy). A Python exception that no
  handler catches ends the run too, with a traceback: \<open>Uncaught\<close>.
\<close>

datatype exn = IndexError | KeyError | ValueError | OSError | JSONDecodeError | BadZipFile

datatype error =
    NotFound              \<comment> \<open>\<^verbatim>\<open>Error: File not found:\<close>\<close>
  | InvalidArchive        \<comment> \<open>\<^verbatim>\<open>Error: Not a zip file:\<close>\<close>
  | NotModpack            \<comment> \<open>\<^verbatim>\<open>Error: Not a Modrinth modpack:\<close>\<close>
  | UnsupportedVersion    \<comment> \<open>\<^verbatim>\<open>Error: Unsupported format version:\<close>\<close>
  | UnapprovedDomain      \<comment> \<open>\<^verbatim>\<open>Error: Unsupported domain:\<close>\<close>
  | DownloadFailed        \<comment> \<open>\<^verbatim>\<open>Error: Failed to download:\<close>\<close>
  | HashMismatch          \<comment> \<open>\<^verbatim>\<open>Error: Hash mismatch:\<close>\<close>
  | OverlayFailed         \<comment> \<open>\<^verbatim>\<open>Error: Failed to copy overrides\<close>\<close>
  | Uncaught exn

subsection \<open>The manifest and the resources\<close>

text \<open>
  The parsed \<^verbatim>\<open>modrinth.index.json\<close>: \<^verbatim>\<open>data['formatVersion']\<close>, \<^verbatim>\<open>data['files']\<close>, and
  for each file \<^verbatim>\<open>file['downloads']\<close>, \<^verbatim>\<open>file['path']\<close>, \<^verbatim>\<open>file['hashes']\<close>. The list of
  downloads may be empty and the dictionary of hashes may lack a key, as in the JSON.
\<close>

record entry =
  downloads :: "string list"
  path :: string
  hashes :: "string \<rightharpoonup> string"

record manifest =
  formatVersion :: int
  files :: "entry list"

text \<open>A resource is the dictionary \<^verbatim>\<open>{'url': url, 'path': path, 'hash': hash}\<close>.\<close>

record resource =
  url :: string
  path :: string
  hash :: string

subsection \<open>The network location of a URL\<close>

text \<open>
  \<^verbatim>\<open>urlparse(url).netloc\<close> of \<^verbatim>\<open>urllib.parse\<close> (CPython 3.11), for strings of
  characters below 256: leading characters up to the space are stripped, tab, carriage
  return and line feed are removed, a scheme \<^verbatim>\<open>letter (letter | digit | + | - | .)* :\<close> is
  split off, and if the rest starts with \<^verbatim>\<open>//\<close> the network location is what follows, up
  to the first of \<^verbatim>\<open>/ ? #\<close>; otherwise it is empty. Unbalanced brackets raise
  \<^verbatim>\<open>ValueError\<close>, and so does a bracketed host that the library's check of IP literals
  refuses; that check is the parameter \<open>check_bracketed_host\<close>.
\<close>

definition scheme_chars :: string where
  "scheme_chars = ''abcdefghijklmnopqrstuvwxyzABCDEFGHIJKLMNOPQRSTUVWXYZ0123456789+-.''"

definition ascii_letters :: string where
  "ascii_letters = ''abcdefghijklmnopqrstuvwxyzABCDEFGHIJKLMNOPQRSTUVWXYZ''"

definition lstrip_c0 :: "string \<Rightarrow> string" where
  "lstrip_c0 u = dropWhile (\<lambda>c. (of_char c :: nat) \<le> 32) u"

definition remove_unsafe :: "string \<Rightarrow> string" where
  "remove_unsafe u = filter (\<lambda>c. (of_char c :: nat) \<notin> {9, 13, 10}) u"

definition split_scheme :: "string \<Rightarrow> string" where
  "split_scheme u =
     (let s = takeWhile (\<lambda>c. c \<noteq> CHR '':'') u in
      if CHR '':'' \<in> set u \<and> s \<noteq> [] \<and> hd u \<in> set ascii_letters
         \<and> list_all (\<lambda>c. c \<in> set scheme_chars) s
      then drop (length s + 1) u else u)"

definition splitnetloc :: "string \<Rightarrow> string" where
  "splitnetloc u = takeWhile (\<lambda>c. c \<notin> set ''/?#'') (drop 2 u)"

definition bracketed_host :: "string \<Rightarrow> string" where
  "bracketed_host n =
     takeWhile (\<lambda>c. c \<noteq> CHR '']'') (drop 1 (dropWhile (\<lambda>c. c \<noteq> CHR ''['') n))"

definition urlparse_netloc :: "(string \<Rightarrow> bool) \<Rightarrow> string \<Rightarrow> error + string" where
  "urlparse_netloc check_bracketed_host u =
     (let r = split_scheme (remove_unsafe (lstrip_c0 u)) in
      if take 2 r = ''//'' then
        (let netloc = splitnetloc r in
         if (CHR ''['' \<in> set netloc \<and> CHR '']'' \<notin> set netloc)
            \<or> (CHR '']'' \<in> set netloc \<and> CHR ''['' \<notin> set netloc)
         then Inl (Uncaught ValueError)
         else if CHR ''['' \<in> set netloc \<and> CHR '']'' \<in> set netloc
                 \<and> \<not> check_bracketed_host (bracketed_host netloc)
         then Inl (Uncaught ValueError)
         else Inr netloc)
      else Inr [])"

text \<open>Python's \<^verbatim>\<open>str.lower\<close> on one ASCII character.\<close>

definition lower :: "char \<Rightarrow> char" where
  "lower c = (case map_of (zip ''ABCDEFGHIJKLMNOPQRSTUVWXYZ'' ''abcdefghijklmnopqrstuvwxyz'') c of
                Some d \<Rightarrow> d | None \<Rightarrow> c)"

text \<open>
  \<^verbatim>\<open>urlparse(url).hostname\<close>, the host inside a network location: what follows the last
  \<^verbatim>\<open>@\<close>, up to the port (or between the brackets), in lower case up to a zone mark
  \<^verbatim>\<open>%\<close>. The program never reads it; it is here to say when the host of a URL is an
  accepted name although its network location is not.
\<close>

definition hostname :: "string \<Rightarrow> string" where
  "hostname netloc =
     (let hostinfo = rev (takeWhile (\<lambda>c. c \<noteq> CHR ''@'') (rev netloc));
          h = (if CHR ''['' \<in> set hostinfo
               then takeWhile (\<lambda>c. c \<noteq> CHR '']'')
                      (drop 1 (dropWhile (\<lambda>c. c \<noteq> CHR ''['') hostinfo))
               else takeWhile (\<lambda>c. c \<noteq> CHR '':'') hostinfo)
      in map lower (takeWhile (\<lambda>c. c \<noteq> CHR ''%'') h) @ dropWhile (\<lambda>c. c \<noteq> CHR ''%'') h)"

subsection \<open>Resolving the resources: \<^verbatim>\<open>getMods\<close>\<close>

definition ACCEPTED_DOMAINS :: "string list" where
  "ACCEPTED_DOMAINS =
     [''cdn.modrinth.com'', ''github.com'', ''raw.githubusercontent.com'', ''gitlab.com'']"

text \<open>
  The body of the \<^verbatim>\<open>for file in data['files']\<close> loop, for one file: the three reads
  (\<^verbatim>\<open>file['downloads'][0]\<close> raises \<^verbatim>\<open>IndexError\<close> on an empty list,
  \<^verbatim>\<open>file['hashes']['sha1']\<close> raises \<^verbatim>\<open>KeyError\<close> without that key), then the test of
  the domain, then the new resource.
\<close>

definition getMod :: "(string \<Rightarrow> bool) \<Rightarrow> entry \<Rightarrow> error + resource" where
  "getMod chk file =
     (case downloads file of
        [] \<Rightarrow> Inl (Uncaught IndexError)
      | u # _ \<Rightarrow>
        (case hashes file ''sha1'' of
           None \<Rightarrow> Inl (Uncaught KeyError)
         | Some h \<Rightarrow>
           (case urlparse_netloc chk u of
              Inl e \<Rightarrow> Inl e
            | Inr domain \<Rightarrow>
                if domain \<notin> set ACCEPTED_DOMAINS then Inl UnapprovedDomain
                else Inr \<lparr>url = u, path = entry.path file, hash = h\<rparr>)))"

text \<open>The loop, with the list \<^verbatim>\<open>resources\<close> it appends to.\<close>

fun getMods_loop ::
  "(string \<Rightarrow> bool) \<Rightarrow> entry list \<Rightarrow> resource list \<Rightarrow> error + resource list" where
  "getMods_loop chk [] resources = Inr resources"
| "getMods_loop chk (file # rest) resources =
     (case getMod chk file of
        Inl e \<Rightarrow> Inl e
      | Inr r \<Rightarrow> getMods_loop chk rest (resources @ [r]))"

definition getMods :: "(string \<Rightarrow> bool) \<Rightarrow> manifest \<Rightarrow> error + resource list" where
  "getMods chk data = getMods_loop chk (files data) []"

subsection \<open>The file system\<close>

text \<open>
  The file system is a tree: a regular file with its bytes, or a directory with its named
  entries (looked up with \<open>map_of\<close>, written with \<open>AList.update\<close>). A path is the list of
  its components from the root. The tree has no symbolic links, and a component
  \<^verbatim>\<open>..\<close> is a name like any other.
\<close>

type_synonym bytes = string

datatype node = File bytes | Dir "(string \<times> node) list"

type_synonym Path = "string list"

fun lookup :: "node \<Rightarrow> Path \<Rightarrow> node option" where
  "lookup n [] = Some n"
| "lookup (File b) (c # cs) = None"
| "lookup (Dir es) (c # cs) = (case map_of es c of None \<Rightarrow> None | Some n \<Rightarrow> lookup n cs)"

text \<open>\<^verbatim>\<open>Path.mkdir(parents=True, exist_ok=ok)\<close>; \<open>None\<close> is the \<^verbatim>\<open>OSError\<close> it raises.\<close>

fun fresh_dirs :: "Path \<Rightarrow> node" where
  "fresh_dirs [] = Dir []"
| "fresh_dirs (c # cs) = Dir [(c, fresh_dirs cs)]"

fun mkdir :: "bool \<Rightarrow> node \<Rightarrow> Path \<Rightarrow> node option" where
  "mkdir ok (File b) p = None"
| "mkdir ok (Dir es) [] = (if ok then Some (Dir es) else None)"
| "mkdir ok (Dir es) (c # cs) =
     (case map_of es c of
        None \<Rightarrow> Some (Dir (AList.update c (fresh_dirs cs) es))
      | Some n \<Rightarrow>
        (case mkdir ok n cs of
           None \<Rightarrow> None
         | Some n' \<Rightarrow> Some (Dir (AList.update c n' es))))"

text \<open>
  \<^verbatim>\<open>open(p, 'wb')\<close> and \<^verbatim>\<open>write\<close>: the file is made or replaced in an existing
  directory; \<open>None\<close> when the path is a directory or its parent is not one.
\<close>

fun write_file :: "node \<Rightarrow> Path \<Rightarrow> bytes \<Rightarrow> node option" where
  "write_file (File old) [] b = Some (File b)"
| "write_file (Dir es) [] b = None"
| "write_file (File old) (c # cs) b = None"
| "write_file (Dir es) (c # cs) b =
     (case map_of es c of
        None \<Rightarrow> (if cs = [] then Some (Dir (AList.update c (File b) es)) else None)
      | Some n \<Rightarrow>
        (case write_file n cs b of
           None \<Rightarrow> None
         | Some n' \<Rightarrow> Some (Dir (AList.update c n' es))))"

definition read_file :: "node \<Rightarrow> Path \<Rightarrow> bytes option" where
  "read_file n p = (case lookup n p of Some (File b) \<Rightarrow> Some b | _ \<Rightarrow> None)"

text \<open>The node at an existing path replaced by its image under \<open>f\<close>.\<close>

fun modify :: "(node \<Rightarrow> node) \<Rightarrow> node \<Rightarrow> Path \<Rightarrow> node" where
  "modify f n [] = f n"
| "modify f (File b) (c # cs) = File b"
| "modify f (Dir es) (c # cs) =
     (case map_of es c of
        None \<Rightarrow> Dir es
      | Some n \<Rightarrow> Dir (AList.update c (modify f n cs) es))"


subsection \<open>Paths\<close>

text \<open>
  The operator \<^verbatim>\<open>/\<close> of \<^verbatim>\<open>pathlib\<close> with a string on the right: the string is cut
  at the slashes, empty components and \<^verbatim>\<open>.\<close> are dropped, and a string that starts with
  a slash replaces the path on the left.
\<close>

fun split_slash :: "string \<Rightarrow> string \<Rightarrow> string list" where
  "split_slash [] cur = [cur]"
| "split_slash (c # cs) cur =
     (if c = CHR ''/'' then cur # split_slash cs [] else split_slash cs (cur @ [c]))"

definition parts :: "string \<Rightarrow> string list" where
  "parts s = filter (\<lambda>c. c \<noteq> [] \<and> c \<noteq> ''.'') (split_slash s [])"

definition joinpath :: "Path \<Rightarrow> string \<Rightarrow> Path" where
  "joinpath base s = (if take 1 s = ''/'' then parts s else base @ parts s)"

text \<open>
  \<^verbatim>\<open>Path.stem\<close>: the last component without its last suffix; the dot of the suffix is
  neither the first nor the last character of the name.
\<close>

definition stem :: "Path \<Rightarrow> string" where
  "stem p =
     (if p = [] then []
      else let name = last p; suffix = takeWhile (\<lambda>c. c \<noteq> CHR ''.'') (rev name);
               i = length name - length suffix - 1
           in if CHR ''.'' \<in> set name \<and> 0 < i \<and> i < length name - 1
              then take i name else name)"

subsection \<open>The world outside the program\<close>

text \<open>
  What the run reads from its surroundings: the working directory of the process, the
  library's decoders (\<^verbatim>\<open>zipfile.is_zipfile\<close>, \<^verbatim>\<open>ZipFile.extractall\<close> as the tree it
  unpacks, \<^verbatim>\<open>json.load\<close> as the manifest it parses; \<open>None\<close> when they raise), the answer
  of \<^verbatim>\<open>urlopen(url).read()\<close> given the requests made before (\<open>None\<close> when it raises), the
  SHA-1 digest of a byte string as its list of twenty bytes, and the library's check of
  bracketed hosts.
\<close>

record env =
  process_cwd :: Path
  is_zipfile :: "bytes \<Rightarrow> bool"
  extractall :: "bytes \<Rightarrow> (string \<times> node) list option"
  json_load :: "bytes \<Rightarrow> manifest option"
  urlopen :: "string list \<Rightarrow> string \<Rightarrow> bytes option"
  sha1 :: "bytes \<Rightarrow> nat list"
  check_bracketed_host :: "string \<Rightarrow> bool"

text \<open>The state of a run: the file system and the URLs requested so far.\<close>

record state =
  root :: node
  fetched :: "string list"

text \<open>\<^verbatim>\<open>hexdigest()\<close>: two hexadecimal digits for each byte of the digest, letters in
  lower case.\<close>

definition hexchar :: "nat \<Rightarrow> char" where
  "hexchar d = ''0123456789abcdef'' ! (d mod 16)"

definition hexdigest :: "nat list \<Rightarrow> string" where
  "hexdigest digest = concat (map (\<lambda>d. [hexchar (d div 16), hexchar d]) digest)"

subsection \<open>The directories of a modpack\<close>

text \<open>\<^verbatim>\<open>cwd = Path.cwd() / 'modpacktools' / 'legacyinstall'\<close>, and the two directories
  \<^verbatim>\<open>cwd / modpack.stem / 'pack'\<close> and \<^verbatim>\<open>cwd / modpack.stem / 'install'\<close>.\<close>

definition cwd :: "env \<Rightarrow> Path" where
  "cwd ev = joinpath (joinpath (process_cwd ev) ''modpacktools'') ''legacyinstall''"

definition pack_dir :: "env \<Rightarrow> Path \<Rightarrow> Path" where
  "pack_dir ev modpack = joinpath (joinpath (cwd ev) (stem modpack)) ''pack''"

definition install_dir :: "env \<Rightarrow> Path \<Rightarrow> Path" where
  "install_dir ev modpack = joinpath (joinpath (cwd ev) (stem modpack)) ''install''"

subsection \<open>Loading the archive: \<^verbatim>\<open>loadModpack\<close>\<close>

text \<open>
  The end of \<^verbatim>\<open>loadModpack\<close>: the index is looked for in the pack directory, parsed, and
  its format version compared with 1.
\<close>

definition read_index :: "env \<Rightarrow> node \<Rightarrow> Path \<Rightarrow> error + manifest" where
  "read_index ev r modpack_dir =
     (case lookup r (joinpath modpack_dir ''modrinth.index.json'') of
        None \<Rightarrow> Inl NotModpack
      | Some (Dir es) \<Rightarrow> Inl (Uncaught OSError)
      | Some (File b) \<Rightarrow>
        (case json_load ev b of
           None \<Rightarrow> Inl (Uncaught JSONDecodeError)
         | Some data \<Rightarrow>
             if formatVersion data \<noteq> 1 then Inl UnsupportedVersion else Inr data))"

text \<open>
  The middle of \<^verbatim>\<open>loadModpack\<close>: the pack directory is made and the archive \<open>z\<close>
  unpacked into it, unless the directory exists. \<^verbatim>\<open>mkdir(parents=True)\<close> raises when a
  parent is a regular file; \<^verbatim>\<open>extractall\<close> may raise and leave the new directory behind.
\<close>

definition extract_archive :: "env \<Rightarrow> Path \<Rightarrow> bytes \<Rightarrow> state \<Rightarrow> error option \<times> state" where
  "extract_archive ev modpack z s =
     (let modpack_dir = pack_dir ev modpack in
      if lookup (root s) modpack_dir = None then
        (case mkdir False (root s) modpack_dir of
           None \<Rightarrow> (Some (Uncaught OSError), s)
         | Some r1 \<Rightarrow>
           (case extractall ev z of
              None \<Rightarrow> (Some (Uncaught BadZipFile), s\<lparr>root := r1\<rparr>)
            | Some es \<Rightarrow> (None, s\<lparr>root := modify (\<lambda>_. Dir es) r1 modpack_dir\<rparr>)))
      else (None, s))"

text \<open>The whole function. A directory where the archive should be is not a zip file.\<close>

definition loadModpack :: "env \<Rightarrow> Path \<Rightarrow> state \<Rightarrow> (error + manifest) \<times> state" where
  "loadModpack ev modpack s =
     (case lookup (root s) modpack of
        None \<Rightarrow> (Inl NotFound, s)
      | Some (Dir es) \<Rightarrow> (Inl InvalidArchive, s)
      | Some (File z) \<Rightarrow>
          if \<not> is_zipfile ev z then (Inl InvalidArchive, s)
          else
            (case extract_archive ev modpack z s of
               (Some e, s1) \<Rightarrow> (Inl e, s1)
             | (None, s1) \<Rightarrow> (read_index ev (root s1) (pack_dir ev modpack), s1)))"

subsection \<open>Downloading: \<^verbatim>\<open>downloadMods\<close>\<close>

text \<open>
  One turn of the loop over the resources. The request is logged before its outcome is
  known. \<^verbatim>\<open>exit(1)\<close> raises \<^verbatim>\<open>SystemExit\<close>, which \<^verbatim>\<open>except Exception\<close> does not catch,
  so a wrong digest leaves with \<^verbatim>\<open>Hash mismatch\<close>; a failing request or write is caught
  and leaves with \<^verbatim>\<open>Failed to download\<close>.
\<close>

definition download_one :: "env \<Rightarrow> Path \<Rightarrow> resource \<Rightarrow> state \<Rightarrow> error option \<times> state" where
  "download_one ev installDir resource s =
     (let file = joinpath installDir (resource.path resource) in
      case mkdir True (root s) (butlast file) of
        None \<Rightarrow> (Some (Uncaught OSError), s)
      | Some r1 \<Rightarrow>
          if lookup r1 file \<noteq> None then (None, s\<lparr>root := r1\<rparr>)
          else
            (let s2 = \<lparr>root = r1, fetched = fetched s @ [url resource]\<rparr> in
             case urlopen ev (fetched s) (url resource) of
               None \<Rightarrow> (Some DownloadFailed, s2)
             | Some data \<Rightarrow>
                 if hexdigest (sha1 ev data) \<noteq> hash resource then (Some HashMismatch, s2)
                 else
                   (case write_file r1 file data of
                      None \<Rightarrow> (Some DownloadFailed, s2)
                    | Some r2 \<Rightarrow> (None, s2\<lparr>root := r2\<rparr>))))"

fun downloadMods_loop ::
  "env \<Rightarrow> Path \<Rightarrow> resource list \<Rightarrow> state \<Rightarrow> error option \<times> state" where
  "downloadMods_loop ev installDir [] s = (None, s)"
| "downloadMods_loop ev installDir (resource # rest) s =
     (case download_one ev installDir resource s of
        (Some e, s') \<Rightarrow> (Some e, s')
      | (None, s') \<Rightarrow> downloadMods_loop ev installDir rest s')"

definition downloadMods :: "env \<Rightarrow> Path \<Rightarrow> resource list \<Rightarrow> state \<Rightarrow> error option \<times> state" where
  "downloadMods ev modpack resources s =
     (case mkdir True (root s) (install_dir ev modpack) of
        None \<Rightarrow> (Some (Uncaught OSError), s)
      | Some r1 \<Rightarrow> downloadMods_loop ev (install_dir ev modpack) resources (s\<lparr>root := r1\<rparr>))"

subsection \<open>The overrides: \<^verbatim>\<open>copyOverrides\<close>\<close>

text \<open>
  \<^verbatim>\<open>shutil.copytree(src, dst, dirs_exist_ok=True)\<close> on the entries of a directory: a
  directory is copied into the directory of its name (made if absent; a file of that
  name is an error), a file is copied by \<^verbatim>\<open>copy2\<close> over the file of its name, or into the
  directory of its name. An error does not stop the copy: the other entries are still
  copied and the error is raised at the end. The flag is \<open>True\<close> when no error occurred.
\<close>

fun copy_entry :: "string \<Rightarrow> node \<Rightarrow> (string \<times> node) list \<Rightarrow> bool \<times> (string \<times> node) list"
  and copy_entries :: "(string \<times> node) list \<Rightarrow> (string \<times> node) list \<Rightarrow> bool \<times> (string \<times> node) list"
where
  "copy_entry name (File b) des =
     (case map_of des name of
        Some (Dir ch) \<Rightarrow>
          (case map_of ch name of
             Some (Dir x) \<Rightarrow> (False, des)
           | _ \<Rightarrow> (True, AList.update name (Dir (AList.update name (File b) ch)) des))
      | _ \<Rightarrow> (True, AList.update name (File b) des))"
| "copy_entry name (Dir ses) des =
     (case map_of des name of
        Some (File old) \<Rightarrow> (False, des)
      | Some (Dir ch) \<Rightarrow>
          (case copy_entries ses ch of (ok, ch') \<Rightarrow> (ok, AList.update name (Dir ch') des))
      | None \<Rightarrow>
          (case copy_entries ses [] of (ok, ch') \<Rightarrow> (ok, AList.update name (Dir ch') des)))"
| "copy_entries [] des = (True, des)"
| "copy_entries (e # rest) des =
     (case copy_entry (fst e) (snd e) des of
        (ok1, des1) \<Rightarrow>
          (case copy_entries rest des1 of (ok2, des2) \<Rightarrow> (ok1 \<and> ok2, des2)))"

definition copytree :: "node \<Rightarrow> Path \<Rightarrow> Path \<Rightarrow> bool \<times> node" where
  "copytree r src dst =
     (case lookup r src of
        Some (Dir ses) \<Rightarrow>
          (case mkdir True r dst of
             None \<Rightarrow> (False, r)
           | Some r1 \<Rightarrow>
             (case lookup r1 dst of
                Some (Dir des) \<Rightarrow>
                  (case copy_entries ses des of
                     (ok, des') \<Rightarrow> (ok, modify (\<lambda>_. Dir des') r1 dst))
              | _ \<Rightarrow> (False, r1)))
      | _ \<Rightarrow> (False, r))"

text \<open>\<^verbatim>\<open>shutil.copy(src, dst)\<close>: into \<^verbatim>\<open>dst\<close> under the name of \<^verbatim>\<open>src\<close> when \<^verbatim>\<open>dst\<close> is a
  directory; \<open>None\<close> is the \<^verbatim>\<open>OSError\<close> it raises.\<close>

definition shutil_copy :: "node \<Rightarrow> Path \<Rightarrow> Path \<Rightarrow> node option" where
  "shutil_copy r src dst =
     (case read_file r src of
        None \<Rightarrow> None
      | Some b \<Rightarrow>
          write_file r (case lookup r dst of Some (Dir es) \<Rightarrow> dst @ [last src] | _ \<Rightarrow> dst) b)"

definition copyOverrides :: "env \<Rightarrow> Path \<Rightarrow> state \<Rightarrow> error option \<times> state" where
  "copyOverrides ev modpack s =
     (let pack = pack_dir ev modpack; overrides = joinpath pack ''overrides'' in
      if lookup (root s) overrides = None then (None, s)
      else
        (let installDir = install_dir ev modpack in
         case copytree (root s) overrides installDir of
           (False, r1) \<Rightarrow> (Some OverlayFailed, s\<lparr>root := r1\<rparr>)
         | (True, r1) \<Rightarrow>
           (case shutil_copy r1 (joinpath pack ''modrinth.index.json'')
                   (joinpath installDir ''modrinth.index.json'') of
              None \<Rightarrow> (Some (Uncaught OSError), s\<lparr>root := r1\<rparr>)
            | Some r2 \<Rightarrow> (None, s\<lparr>root := r2\<rparr>))))"

subsection \<open>The run: \<^verbatim>\<open>main\<close>\<close>

text \<open>From the path of the archive on: the prompt and the trimming of the answer are left
  out.\<close>

definition main :: "env \<Rightarrow> Path \<Rightarrow> state \<Rightarrow> error option \<times> state" where
  "main ev modpack s =
     (case mkdir True (root s) (cwd ev) of
        None \<Rightarrow> (Some (Uncaught OSError), s)
      | Some r0 \<Rightarrow>
        (case loadModpack ev modpack (s\<lparr>root := r0\<rparr>) of
           (Inl e, s1) \<Rightarrow> (Some e, s1)
         | (Inr index, s1) \<Rightarrow>
           (case getMods (check_bracketed_host ev) index of
              Inl e \<Rightarrow> (Some e, s1)
            | Inr resources \<Rightarrow>
              (case downloadMods ev modpack resources s1 of
                 (Some e, s2) \<Rightarrow> (Some e, s2)
               | (None, s2) \<Rightarrow> copyOverrides ev modpack s2))))"

subsection \<open>Example values\<close>

text \<open>The file of the specification's scenario, and a second one with a fallback URL.\<close>

definition example_entry :: entry where
  "example_entry =
     \<lparr>downloads = [''https://cdn.modrinth.com/data/abc/mod.jar''], path = ''mods/mod.jar'',
      hashes = [''sha1'' \<mapsto> ''da39a3ee5e6b4b0d3255bfef95601890afd80709'']\<rparr>"

definition second_entry :: entry where
  "second_entry =
     \<lparr>downloads = [''https://github.com/a/b.jar'', ''https://example.org/evil.jar''],
      path = ''mods/b.jar'',
      hashes = [''sha512'' \<mapsto> ''ff'', ''sha1'' \<mapsto> ''0000000000000000000000000000000000000000'']\<rparr>"

definition example_manifest :: manifest where
  "example_manifest = \<lparr>formatVersion = 1, files = [example_entry, second_entry]\<rparr>"

text \<open>Files whose first URL names an accepted host with a port, with a user, in capitals.\<close>

definition port_entry :: entry where
  "port_entry =
     \<lparr>downloads = [''https://cdn.modrinth.com:443/data/abc/mod.jar''], path = ''mods/mod.jar'',
      hashes = [''sha1'' \<mapsto> ''da39a3ee5e6b4b0d3255bfef95601890afd80709'']\<rparr>"

text \<open>
  A world for the examples: the process runs in \<^verbatim>\<open>/home\<close>, where \<^verbatim>\<open>Pack.zip\<close> lies; the
  archive holds a \<^verbatim>\<open>modrinth.index.json\<close> that parses to the manifest \<open>m\<close>; the one URL
  of the scenario answers with the empty byte string, whose SHA-1 digest is
  \<^verbatim>\<open>da39a3ee5e6b4b0d3255bfef95601890afd80709\<close> (no other digest is used in the examples).
\<close>

definition empty_digest :: "nat list" where
  "empty_digest = [218, 57, 163, 238, 94, 107, 75, 13, 50, 85,
                   191, 239, 149, 96, 24, 144, 175, 216, 7, 9]"

definition world :: "manifest \<Rightarrow> env" where
  "world m =
     \<lparr>process_cwd = [''home''],
      is_zipfile = (\<lambda>z. take 2 z = ''PK''),
      extractall = (\<lambda>z. if take 2 z = ''PK''
                          then Some [(''modrinth.index.json'', File ''{}'')] else None),
      json_load = (\<lambda>b. if b = ''{}'' then Some m else None),
      urlopen = (\<lambda>before u. if u = ''https://cdn.modrinth.com/data/abc/mod.jar''
                               then Some [] else None),
      sha1 = (\<lambda>b. if b = [] then empty_digest else replicate 20 0),
      check_bracketed_host = (\<lambda>_. True)\<rparr>"

definition start :: state where
  "start = \<lparr>root = Dir [(''home'', Dir [(''Pack.zip'', File ''PK'')])], fetched = []\<rparr>"

definition Pack_zip :: Path where
  "Pack_zip = [''home'', ''Pack.zip'']"

text \<open>Three resources for the same URL and path: with the digest of the empty byte string,
  with another digest, and with the same digest in capitals.\<close>

definition mod_jar :: resource where
  "mod_jar = \<lparr>url = ''https://cdn.modrinth.com/data/abc/mod.jar'', path = ''mods/mod.jar'',
              hash = ''da39a3ee5e6b4b0d3255bfef95601890afd80709''\<rparr>"

definition wrong_hash :: resource where
  "wrong_hash = \<lparr>url = ''https://cdn.modrinth.com/data/abc/mod.jar'', path = ''mods/mod.jar'',
              hash = ''0000000000000000000000000000000000000000''\<rparr>"

definition upper_hash :: resource where
  "upper_hash = \<lparr>url = ''https://cdn.modrinth.com/data/abc/mod.jar'', path = ''mods/mod.jar'',
              hash = ''DA39A3EE5E6B4B0D3255BFEF95601890AFD80709''\<rparr>"

text \<open>Manifests with a file from a host that is not accepted, and of format version 2.\<close>

definition evil_entry :: entry where
  "evil_entry =
     \<lparr>downloads = [''https://example.org/evil.jar''], path = ''mods/evil.jar'',
      hashes = [''sha1'' \<mapsto> ''da39a3ee5e6b4b0d3255bfef95601890afd80709'']\<rparr>"

definition bad_manifest :: manifest where
  "bad_manifest = \<lparr>formatVersion = 1, files = [example_entry, evil_entry]\<rparr>"

definition v2_manifest :: manifest where
  "v2_manifest = \<lparr>formatVersion = 2, files = [example_entry]\<rparr>"

text \<open>File systems along a run: the working directory made, the archive unpacked, the
  install directory made, the directory \<^verbatim>\<open>mods\<close> made, the file installed; and one with
  overrides in the pack directory.\<close>

definition cwd_made :: node where
  "cwd_made = Dir [(''home'', Dir [(''Pack.zip'', File ''PK''), (''modpacktools'',
     Dir [(''legacyinstall'', Dir [])])])]"

definition unpacked :: node where
  "unpacked = Dir [(''home'', Dir [(''Pack.zip'', File ''PK''), (''modpacktools'',
     Dir [(''legacyinstall'', Dir [(''Pack'', Dir [(''pack'',
       Dir [(''modrinth.index.json'', File ''{}'')])])])])])]"

definition install_made :: node where
  "install_made = Dir [(''home'', Dir [(''Pack.zip'', File ''PK''), (''modpacktools'',
     Dir [(''legacyinstall'', Dir [(''Pack'', Dir [(''install'', Dir [])])])])])]"

definition mods_made :: node where
  "mods_made = Dir [(''home'', Dir [(''Pack.zip'', File ''PK''), (''modpacktools'',
     Dir [(''legacyinstall'', Dir [(''Pack'', Dir [(''install'', Dir [(''mods'', Dir [])])])])])])]"

definition mod_installed :: node where
  "mod_installed = Dir [(''home'', Dir [(''Pack.zip'', File ''PK''), (''modpacktools'',
     Dir [(''legacyinstall'', Dir [(''Pack'', Dir [(''install'',
       Dir [(''mods'', Dir [(''mod.jar'', File [])])])])])])])]"

definition with_overrides :: node where
  "with_overrides = Dir [(''home'', Dir [(''Pack.zip'', File ''PK''), (''modpacktools'',
     Dir [(''legacyinstall'', Dir [(''Pack'', Dir [
       (''pack'', Dir [(''modrinth.index.json'', File ''{}''),
                      (''overrides'', Dir [(''mods'', Dir [(''mod.jar'', File ''patched'')]),
                                          (''options.txt'', File ''fov'')])]),
       (''install'', Dir [(''mods'', Dir [(''mod.jar'', File [])])])])])])])]"

text \<open>The manifest of the scenario, and the file system after its run.\<close>

definition scenario_manifest :: manifest where
  "scenario_manifest = \<lparr>formatVersion = 1, files = [example_entry]\<rparr>"

definition installed :: node where
  "installed = Dir [(''home'', Dir [(''Pack.zip'', File ''PK''), (''modpacktools'',
     Dir [(''legacyinstall'', Dir [(''Pack'', Dir [
       (''pack'', Dir [(''modrinth.index.json'', File ''{}'')]),
       (''install'', Dir [(''mods'', Dir [(''mod.jar'', File [])])])])])])])]"

text \<open>The file system \<open>with_overrides\<close> after the overlay; and one where the overrides
  and the install directory both hold a \<^verbatim>\<open>modrinth.index.json\<close>, before and after.\<close>

definition overlaid :: node where
  "overlaid = Dir [(''home'', Dir [(''Pack.zip'', File ''PK''), (''modpacktools'',
     Dir [(''legacyinstall'', Dir [(''Pack'', Dir [
       (''pack'', Dir [(''modrinth.index.json'', File ''{}''),
                      (''overrides'', Dir [(''mods'', Dir [(''mod.jar'', File ''patched'')]),
                                          (''options.txt'', File ''fov'')])]),
       (''install'', Dir [(''mods'', Dir [(''mod.jar'', File ''patched'')]),
                         (''options.txt'', File ''fov''),
                         (''modrinth.index.json'', File ''{}'')])])])])])]"



section \<open>Properties\<close>

subsection \<open>Evaluating the library functions\<close>

lemmas netloc_defs = urlparse_netloc_def split_scheme_def remove_unsafe_def lstrip_c0_def
  splitnetloc_def bracketed_host_def scheme_chars_def ascii_letters_def

lemma netloc_plain:
  "urlparse_netloc chk ''https://cdn.modrinth.com/data/abc/mod.jar'' = Inr ''cdn.modrinth.com''"
  by (simp add: netloc_defs)

lemma netloc_port:
  "urlparse_netloc chk ''https://cdn.modrinth.com:443/data/abc/mod.jar''
     = Inr ''cdn.modrinth.com:443''"
  by (simp add: netloc_defs)

lemma netloc_userinfo:
  "urlparse_netloc chk ''https://user@github.com/a/b.jar'' = Inr ''user@github.com''"
  by (simp add: netloc_defs)

lemma netloc_upper:
  "urlparse_netloc chk ''https://GitHub.com/a/b.jar'' = Inr ''GitHub.com''"
  by (simp add: netloc_defs)

lemma netloc_github:
  "urlparse_netloc chk ''https://github.com/a/b.jar'' = Inr ''github.com''"
  by (simp add: netloc_defs)

lemma netloc_other:
  "urlparse_netloc chk ''https://example.org/evil.jar'' = Inr ''example.org''"
  by (simp add: netloc_defs)

lemma hexdigest_empty:
  "hexdigest empty_digest = ''da39a3ee5e6b4b0d3255bfef95601890afd80709''"
  by (simp add: hexdigest_def hexchar_def empty_digest_def)

lemma hexchar_lower: "hexchar d \<in> set ''0123456789abcdef''"
  unfolding hexchar_def by (rule nth_mem) simp

lemma hexdigest_lower: "set (hexdigest ds) \<subseteq> set ''0123456789abcdef''"
  unfolding hexdigest_def using hexchar_lower by (induction ds) auto

lemma stem_Pack: "stem Pack_zip = ''Pack''"
  by (simp add: stem_def Pack_zip_def)

lemma cwd_world: "cwd (world m) = [''home'', ''modpacktools'', ''legacyinstall'']"
  by (simp add: cwd_def world_def joinpath_def parts_def)

lemma pack_dir_world:
  "pack_dir (world m) Pack_zip = [''home'', ''modpacktools'', ''legacyinstall'', ''Pack'', ''pack'']"
  by (simp add: pack_dir_def cwd_world stem_Pack joinpath_def parts_def)

lemma install_dir_world:
  "install_dir (world m) Pack_zip = [''home'', ''modpacktools'', ''legacyinstall'', ''Pack'', ''install'']"
  by (simp add: install_dir_def cwd_world stem_Pack joinpath_def parts_def)

lemma join_mod_jar:
  "joinpath [''home'', ''modpacktools'', ''legacyinstall'', ''Pack'', ''install''] ''mods/mod.jar''
     = [''home'', ''modpacktools'', ''legacyinstall'', ''Pack'', ''install'', ''mods'', ''mod.jar'']"
  by (simp add: joinpath_def parts_def)

lemma join_index:
  "joinpath [''home'', ''modpacktools'', ''legacyinstall'', ''Pack'', ''pack''] ''modrinth.index.json''
     = [''home'', ''modpacktools'', ''legacyinstall'', ''Pack'', ''pack'', ''modrinth.index.json'']"
  by (simp add: joinpath_def parts_def)

subsection \<open>The resolver\<close>

lemma getMods_loop_all:
  assumes "\<forall>e \<in> set es. \<exists>u us h d. downloads e = u # us \<and> hashes e ''sha1'' = Some h
             \<and> urlparse_netloc chk u = Inr d \<and> d \<in> set ACCEPTED_DOMAINS"
  shows "getMods_loop chk es acc =
           Inr (acc @ map (\<lambda>e. \<lparr>url = hd (downloads e), path = entry.path e,
                                 hash = the (hashes e ''sha1'')\<rparr>) es)"
  using assms
proof (induction es arbitrary: acc)
  case Nil
  then show ?case by simp
next
  case (Cons e es)
  then obtain u us h d where e: "downloads e = u # us" "hashes e ''sha1'' = Some h"
      "urlparse_netloc chk u = Inr d" "d \<in> set ACCEPTED_DOMAINS"
    by auto
  then have "getMod chk e = Inr \<lparr>url = u, path = entry.path e, hash = h\<rparr>"
    by (simp add: getMod_def)
  with Cons e show ?case by simp
qed

lemma getMods_loop_append:
  "getMods_loop chk (pre @ post) acc =
     (case getMods_loop chk pre acc of Inl e \<Rightarrow> Inl e | Inr rs \<Rightarrow> getMods_loop chk post rs)"
  by (induction pre arbitrary: acc) (auto split: sum.splits)

lemma getMods_loop_resolved:
  "\<forall>e \<in> set pre. \<exists>r. getMod chk e = Inr r \<Longrightarrow> \<exists>rs. getMods_loop chk pre acc = Inr rs"
  by (induction pre arbitrary: acc) auto

lemma getMod_rejects:
  assumes "downloads file = u # us" and "hashes file ''sha1'' = Some h"
    and "urlparse_netloc chk u = Inr netloc" and "netloc \<notin> set ACCEPTED_DOMAINS"
  shows "getMod chk file = Inl UnapprovedDomain"
  using assms by (simp add: getMod_def)

lemma getMods_loop_rejects:
  assumes "\<forall>e \<in> set pre. \<exists>r. getMod chk e = Inr r"
    and "getMod chk file = Inl err"
  shows "getMods_loop chk (pre @ file # post) acc = Inl err"
proof -
  obtain rs where "getMods_loop chk pre acc = Inr rs"
    using getMods_loop_resolved [OF assms(1)] by blast
  then show ?thesis
    using assms(2) by (simp add: getMods_loop_append)
qed

text \<open>
  Claim C4, as stated, fails: \<^verbatim>\<open>getMods\<close> tests the whole network location of the first
  URL, not its host. The first URL of the one file of this manifest has the accepted host
  \<^verbatim>\<open>cdn.modrinth.com\<close>, written with the port 443, and \<^verbatim>\<open>getMods\<close> leaves with
  \<^verbatim>\<open>Unsupported domain\<close> instead of returning a resource.
\<close>

theorem getMods_rejects_accepted_host_with_port:
  "downloads port_entry = [''https://cdn.modrinth.com:443/data/abc/mod.jar'']
   \<and> urlparse_netloc (\<lambda>_. True) ''https://cdn.modrinth.com:443/data/abc/mod.jar''
        = Inr ''cdn.modrinth.com:443''
   \<and> hostname ''cdn.modrinth.com:443'' = ''cdn.modrinth.com''
   \<and> ''cdn.modrinth.com'' \<in> set ACCEPTED_DOMAINS
   \<and> getMods (\<lambda>_. True) \<lparr>formatVersion = 1, files = [port_entry]\<rparr> = Inl UnapprovedDomain"
proof -
  have "hostname ''cdn.modrinth.com:443'' = ''cdn.modrinth.com''"
    by (simp add: hostname_def lower_def)
  moreover have "getMods (\<lambda>_. True) \<lparr>formatVersion = 1, files = [port_entry]\<rparr>
                   = Inl UnapprovedDomain"
    by (simp add: getMods_def getMod_def port_entry_def netloc_port ACCEPTED_DOMAINS_def)
  ultimately show ?thesis
    by (simp add: port_entry_def netloc_port ACCEPTED_DOMAINS_def)
qed

text \<open>
  Claim C4, amended. When every file of the manifest has a first download URL whose whole
  network location, as a string, is one of the accepted domains (and has a \<^verbatim>\<open>sha1\<close> hash,
  as every file of a Modrinth index has), \<^verbatim>\<open>getMods\<close> returns one resource for each file,
  in the order of the manifest: its \<^verbatim>\<open>url\<close> is the first download URL, its \<^verbatim>\<open>path\<close> the
  file's path and its \<^verbatim>\<open>hash\<close> the file's \<^verbatim>\<open>sha1\<close> hash, each unchanged. The later URLs
  and the other hashes do not occur in the result. \<^verbatim>\<open>getMods\<close> does not read the format
  version, so the statement holds for version 1 in particular.
\<close>

theorem getMods_one_resource_per_file:
  assumes "\<forall>e \<in> set (files data). \<exists>u us h d. downloads e = u # us
             \<and> hashes e ''sha1'' = Some h
             \<and> urlparse_netloc chk u = Inr d \<and> d \<in> set ACCEPTED_DOMAINS"
  shows "getMods chk data =
           Inr (map (\<lambda>e. \<lparr>url = hd (downloads e), path = entry.path e,
                           hash = the (hashes e ''sha1'')\<rparr>) (files data))"
  using getMods_loop_all [OF assms, of "[]"] by (simp add: getMods_def)

theorem getMods_one_resource_per_file_witness:
  "list_all (\<lambda>e. \<exists>u us h d. downloads e = u # us \<and> hashes e ''sha1'' = Some h
       \<and> urlparse_netloc (\<lambda>_. True) u = Inr d \<and> d \<in> set ACCEPTED_DOMAINS)
     (files example_manifest)
   \<and> getMods (\<lambda>_. True) example_manifest =
       Inr [\<lparr>url = ''https://cdn.modrinth.com/data/abc/mod.jar'', path = ''mods/mod.jar'',
             hash = ''da39a3ee5e6b4b0d3255bfef95601890afd80709''\<rparr>,
            \<lparr>url = ''https://github.com/a/b.jar'', path = ''mods/b.jar'',
             hash = ''0000000000000000000000000000000000000000''\<rparr>]"
proof -
  have h: "\<forall>e \<in> set (files example_manifest). \<exists>u us h d. downloads e = u # us
       \<and> hashes e ''sha1'' = Some h
       \<and> urlparse_netloc (\<lambda>_. True) u = Inr d \<and> d \<in> set ACCEPTED_DOMAINS"
    by (simp add: example_manifest_def example_entry_def second_entry_def
        netloc_plain netloc_github ACCEPTED_DOMAINS_def)
  have "getMods (\<lambda>_. True) example_manifest =
       Inr [\<lparr>url = ''https://cdn.modrinth.com/data/abc/mod.jar'', path = ''mods/mod.jar'',
             hash = ''da39a3ee5e6b4b0d3255bfef95601890afd80709''\<rparr>,
            \<lparr>url = ''https://github.com/a/b.jar'', path = ''mods/b.jar'',
             hash = ''0000000000000000000000000000000000000000''\<rparr>]"
    using getMods_one_resource_per_file [OF h]
    by (simp add: example_manifest_def example_entry_def second_entry_def)
  with h show ?thesis
    by (simp only: list_all_iff simp_thms)
qed

text \<open>
  Claim C10. The test \<^verbatim>\<open>domain not in ACCEPTED_DOMAINS\<close> compares the whole network
  location of the first URL with the accepted names as strings. When the files before
  resolve, a file whose first URL has a network location different from every accepted
  name makes \<^verbatim>\<open>getMods\<close> leave with \<^verbatim>\<open>Unsupported domain\<close>; this includes an accepted
  host written with a port, with user information or in another letter case (see the
  witness and \<open>netloc_userinfo\<close>, \<open>netloc_upper\<close>).
\<close>

theorem getMods_netloc_exact:
  assumes "files data = pre @ file # post"
    and "\<forall>e \<in> set pre. \<exists>r. getMod chk e = Inr r"
    and "downloads file = u # us" and "hashes file ''sha1'' = Some h"
    and "urlparse_netloc chk u = Inr netloc"
    and "\<forall>d \<in> set ACCEPTED_DOMAINS. netloc \<noteq> d"
  shows "getMods chk data = Inl UnapprovedDomain"
proof -
  have "netloc \<notin> set ACCEPTED_DOMAINS"
    using assms(6) by blast
  then have "getMod chk file = Inl UnapprovedDomain"
    using assms(3-5) by (rule getMod_rejects [rotated 3])
  then show ?thesis
    using getMods_loop_rejects [OF assms(2)] assms(1) by (simp add: getMods_def)
qed

theorem getMods_netloc_exact_witness:
  "files \<lparr>formatVersion = 1, files = [example_entry, port_entry, second_entry]\<rparr>
      = [example_entry] @ port_entry # [second_entry]
   \<and> list_all (\<lambda>e. \<exists>r. getMod (\<lambda>_. True) e = Inr r) [example_entry]
   \<and> downloads port_entry = ''https://cdn.modrinth.com:443/data/abc/mod.jar'' # []
   \<and> hashes port_entry ''sha1'' = Some ''da39a3ee5e6b4b0d3255bfef95601890afd80709''
   \<and> urlparse_netloc (\<lambda>_. True) ''https://cdn.modrinth.com:443/data/abc/mod.jar''
        = Inr ''cdn.modrinth.com:443''
   \<and> list_all (\<lambda>d. ''cdn.modrinth.com:443'' \<noteq> d) ACCEPTED_DOMAINS
   \<and> getMods (\<lambda>_. True) \<lparr>formatVersion = 1, files = [example_entry, port_entry, second_entry]\<rparr>
        = Inl UnapprovedDomain"
proof -
  have a: "files \<lparr>formatVersion = 1, files = [example_entry, port_entry, second_entry]\<rparr>
      = [example_entry] @ port_entry # [second_entry]"
    by simp
  have b: "\<forall>e \<in> set [example_entry]. \<exists>r. getMod (\<lambda>_. True) e = Inr r"
    by (simp add: getMod_def example_entry_def netloc_plain ACCEPTED_DOMAINS_def)
  have c: "downloads port_entry = ''https://cdn.modrinth.com:443/data/abc/mod.jar'' # []"
    by (simp add: port_entry_def)
  have d: "hashes port_entry ''sha1'' = Some ''da39a3ee5e6b4b0d3255bfef95601890afd80709''"
    by (simp add: port_entry_def)
  have e: "\<forall>d \<in> set ACCEPTED_DOMAINS. ''cdn.modrinth.com:443'' \<noteq> d"
    by (simp add: ACCEPTED_DOMAINS_def)
  note f = netloc_port [of "\<lambda>_. True"]
  note g = getMods_netloc_exact [OF a b c d f e]
  from a b c d e f g show ?thesis
    by (simp only: list_all_iff simp_thms)
qed

lemma getMods_loop_unapproved:
  assumes "\<forall>e \<in> set es. \<exists>u us h d. downloads e = u # us \<and> hashes e ''sha1'' = Some h
             \<and> urlparse_netloc chk u = Inr d"
    and "\<exists>e \<in> set es. \<exists>u us d. downloads e = u # us \<and> urlparse_netloc chk u = Inr d
             \<and> d \<notin> set ACCEPTED_DOMAINS"
  shows "getMods_loop chk es acc = Inl UnapprovedDomain"
  using assms
proof (induction es arbitrary: acc)
  case Nil
  then show ?case by simp
next
  case (Cons e es)
  from Cons.prems(1) obtain u us h d where e: "downloads e = u # us"
      "hashes e ''sha1'' = Some h" "urlparse_netloc chk u = Inr d"
    by auto
  show ?case
  proof (cases "d \<in> set ACCEPTED_DOMAINS")
    case True
    with e have "getMod chk e = Inr \<lparr>url = u, path = entry.path e, hash = h\<rparr>"
      by (simp add: getMod_def)
    moreover from Cons.prems(2) True e
    have "\<exists>e \<in> set es. \<exists>u us d. downloads e = u # us \<and> urlparse_netloc chk u = Inr d
             \<and> d \<notin> set ACCEPTED_DOMAINS"
      by auto
    ultimately show ?thesis
      using Cons.IH Cons.prems(1) by simp
  next
    case False
    with e have "getMod chk e = Inl UnapprovedDomain"
      by (simp add: getMod_def)
    then show ?thesis by simp
  qed
qed

subsection \<open>The file system\<close>

lemma update_same: "map_of es k = Some v \<Longrightarrow> AList.update k v es = es"
  by (induction es) (auto split: if_splits)

lemma mkdir_is_Dir: "mkdir ok n p = Some n' \<Longrightarrow> \<exists>es. n' = Dir es"
  by (cases "(ok, n, p)" rule: mkdir.cases) (auto split: option.splits if_splits)

lemma write_file_Dir: "write_file (Dir es) p b = Some n' \<Longrightarrow> \<exists>es'. n' = Dir es'"
  by (cases p) (auto split: option.splits if_splits)

lemma lookup_fresh_dirs: "lookup (fresh_dirs cs) cs = Some (Dir [])"
  by (induction cs) auto

lemma mkdir_lookup: "mkdir ok n p = Some n' \<Longrightarrow> \<exists>es. lookup n' p = Some (Dir es)"
proof (induction ok n p arbitrary: n' rule: mkdir.induct)
  case (1 ok b p)
  then show ?case by simp
next
  case (2 ok es)
  then show ?case by (auto split: if_splits)
next
  case (3 ok es c cs)
  then show ?case
    by (auto simp: update_conv' lookup_fresh_dirs split: option.splits)
qed

lemma mkdir_existing: "lookup n p = Some (Dir es) \<Longrightarrow> mkdir True n p = Some n"
proof (induction n p rule: lookup.induct)
  case (1 n)
  then show ?case by simp
next
  case (2 b c cs)
  then show ?case by simp
next
  case (3 ds c cs)
  then show ?case by (auto simp: update_same split: option.splits)
qed

lemma lookup_butlast:
  "lookup n p = Some x \<Longrightarrow> p \<noteq> [] \<Longrightarrow> \<exists>es. lookup n (butlast p) = Some (Dir es)"
proof (induction n p rule: lookup.induct)
  case (1 n)
  then show ?case by simp
next
  case (2 b c cs)
  then show ?case by simp
next
  case (3 ds c cs)
  then show ?case by (cases cs) (auto split: option.splits)
qed

lemma write_file_new:
  "lookup n (butlast p) = Some (Dir es) \<Longrightarrow> lookup n p = None \<Longrightarrow> p \<noteq> [] \<Longrightarrow>
     \<exists>n'. write_file n p b = Some n' \<and> lookup n' p = Some (File b)"
proof (induction n p b arbitrary: es rule: write_file.induct)
  case (1 old b)
  then show ?case by simp
next
  case (2 ds b)
  then show ?case by simp
next
  case (3 old c cs b)
  then show ?case by (cases cs) auto
next
  case (4 ds c cs b)
  show ?case
  proof (cases cs)
    case Nil
    with 4 show ?thesis by (auto simp: update_conv' split: option.splits)
  next
    case (Cons d ds')
    with 4 show ?thesis
      by (fastforce simp: update_conv' split: option.splits)
  qed
qed

lemma lookup_modify: "lookup n p = Some x \<Longrightarrow> lookup (modify f n p) p = Some (f x)"
proof (induction n p rule: lookup.induct)
  case (1 n)
  then show ?case by simp
next
  case (2 b c cs)
  then show ?case by simp
next
  case (3 es c cs)
  then show ?case by (auto simp: update_conv' split: option.splits)
qed

subsection \<open>The download loop\<close>

lemma downloadMods_loop_append:
  "downloadMods_loop ev d (pre @ rest) s =
     (case downloadMods_loop ev d pre s of
        (Some e, s') \<Rightarrow> (Some e, s')
      | (None, s') \<Rightarrow> downloadMods_loop ev d rest s')"
  by (induction pre arbitrary: s) (auto split: prod.splits option.splits)

lemma downloadMods_append:
  "downloadMods ev m (pre @ rest) s =
     (case downloadMods ev m pre s of
        (Some e, s') \<Rightarrow> (Some e, s')
      | (None, s') \<Rightarrow> downloadMods_loop ev (install_dir ev m) rest s')"
  by (simp add: downloadMods_def downloadMods_loop_append split: option.splits)

lemma download_one_Dir:
  "download_one ev d r s = (None, s') \<Longrightarrow> \<exists>es. root s' = Dir es"
  by (auto simp: download_one_def Let_def split: option.splits if_splits
      dest!: mkdir_is_Dir write_file_Dir)

lemma downloadMods_loop_Dir:
  "downloadMods_loop ev d rs s = (None, s') \<Longrightarrow> \<exists>es. root s = Dir es \<Longrightarrow> \<exists>es. root s' = Dir es"
proof (induction rs arbitrary: s)
  case Nil
  then show ?case by simp
next
  case (Cons r rs)
  then show ?case
    by (auto split: prod.splits option.splits dest: download_one_Dir)
qed

lemma downloadMods_Dir:
  "downloadMods ev m rs s = (None, s') \<Longrightarrow> \<exists>es. root s' = Dir es"
  by (auto simp: downloadMods_def split: option.splits
      dest!: mkdir_is_Dir intro: downloadMods_loop_Dir)

lemma downloadMods_none: "downloadMods (world m) Pack_zip [] start = (None, \<lparr>root = install_made, fetched = []\<rparr>)"
  by (simp add: downloadMods_def install_dir_world start_def install_made_def)

lemma mkdir_mods: "mkdir True install_made
   (butlast [''home'', ''modpacktools'', ''legacyinstall'', ''Pack'', ''install'', ''mods'', ''mod.jar''])
     = Some mods_made"
  by (simp add: install_made_def mods_made_def)

lemma lookup_mods_made: "lookup mods_made
   [''home'', ''modpacktools'', ''legacyinstall'', ''Pack'', ''install'', ''mods'', ''mod.jar''] = None"
  by (simp add: mods_made_def)

lemma download_upper:
  "download_one (world m) [''home'', ''modpacktools'', ''legacyinstall'', ''Pack'', ''install'']
      upper_hash \<lparr>root = install_made, fetched = []\<rparr>
     = (Some HashMismatch,
        \<lparr>root = mods_made, fetched = [''https://cdn.modrinth.com/data/abc/mod.jar'']\<rparr>)"
  unfolding download_one_def Let_def
  by (simp add: upper_hash_def join_mod_jar mkdir_mods [simplified] lookup_mods_made
      world_def hexdigest_empty)

text \<open>
  Claim C1. Let the resources \<open>pre\<close> before \<open>r\<close> be processed without error, let the
  parent directories of the destination of \<open>r\<close> be made and the destination not exist, and
  let the request for the URL of \<open>r\<close> answer with bytes whose SHA-1 digest in hexadecimal
  differs from the expected hash. Then \<^verbatim>\<open>downloadMods\<close> leaves with \<^verbatim>\<open>Hash mismatch\<close>,
  whatever resources follow; the file system is the one in which the request was made,
  and no file is at the destination.
\<close>

theorem downloadMods_hash_mismatch:
  assumes "downloadMods ev modpack pre s = (None, s1)"
    and "file = joinpath (install_dir ev modpack) (resource.path r)"
    and "mkdir True (root s1) (butlast file) = Some r1"
    and "lookup r1 file = None"
    and "urlopen ev (fetched s1) (url r) = Some data"
    and "hexdigest (sha1 ev data) \<noteq> hash r"
  shows "downloadMods ev modpack (pre @ r # post) s
           = (Some HashMismatch, \<lparr>root = r1, fetched = fetched s1 @ [url r]\<rparr>)
         \<and> lookup (root (snd (downloadMods ev modpack (pre @ r # post) s))) file = None"
proof -
  have "download_one ev (install_dir ev modpack) r s1
          = (Some HashMismatch, \<lparr>root = r1, fetched = fetched s1 @ [url r]\<rparr>)"
    using assms(2-6) by (simp add: download_one_def)
  then have "downloadMods ev modpack (pre @ r # post) s
           = (Some HashMismatch, \<lparr>root = r1, fetched = fetched s1 @ [url r]\<rparr>)"
    using assms(1) by (simp add: downloadMods_append)
  then show ?thesis
    using assms(4) by simp
qed

theorem downloadMods_hash_mismatch_witness:
  "downloadMods (world example_manifest) Pack_zip ([] @ wrong_hash # [mod_jar]) start
     = (Some HashMismatch,
        \<lparr>root = mods_made, fetched = [''https://cdn.modrinth.com/data/abc/mod.jar'']\<rparr>)
   \<and> lookup mods_made
        [''home'', ''modpacktools'', ''legacyinstall'', ''Pack'', ''install'', ''mods'', ''mod.jar'']
        = None"
proof -
  let ?ev = "world example_manifest"
  let ?file = "[''home'', ''modpacktools'', ''legacyinstall'', ''Pack'', ''install'', ''mods'', ''mod.jar'']"
  have a: "downloadMods ?ev Pack_zip [] start = (None, \<lparr>root = install_made, fetched = []\<rparr>)"
    by (rule downloadMods_none)
  have b: "?file = joinpath (install_dir ?ev Pack_zip) (resource.path wrong_hash)"
    by (simp add: install_dir_world join_mod_jar wrong_hash_def)
  have c: "mkdir True (root \<lparr>root = install_made, fetched = []\<rparr>) (butlast ?file) = Some mods_made"
    using mkdir_mods by simp
  have d: "lookup mods_made ?file = None"
    by (rule lookup_mods_made)
  have e: "urlopen ?ev (fetched \<lparr>root = install_made, fetched = []\<rparr>) (url wrong_hash) = Some []"
    by (simp add: world_def wrong_hash_def)
  have f: "hexdigest (sha1 ?ev []) \<noteq> hash wrong_hash"
    by (simp add: world_def hexdigest_empty wrong_hash_def)
  show ?thesis
    using downloadMods_hash_mismatch [OF a b c d e f, of "[mod_jar]"] d
    by (simp add: wrong_hash_def)
qed

text \<open>
  Claim C2, as stated, fails: the test is \<^verbatim>\<open>digest != hash\<close> on strings, and
  \<^verbatim>\<open>hexdigest()\<close> writes its letters in lower case. The empty byte string is fetched, its
  digest and the expected hash agree up to the case of the letters, and the run leaves
  with \<^verbatim>\<open>Hash mismatch\<close> without writing the file.
\<close>

theorem digest_comparison_case_sensitive:
  "map lower (hash upper_hash) = hexdigest (sha1 (world example_manifest) [])
   \<and> urlopen (world example_manifest) [] (url upper_hash) = Some []
   \<and> downloadMods (world example_manifest) Pack_zip [upper_hash] start
       = (Some HashMismatch,
          \<lparr>root = mods_made, fetched = [''https://cdn.modrinth.com/data/abc/mod.jar'']\<rparr>)
   \<and> lookup mods_made
        [''home'', ''modpacktools'', ''legacyinstall'', ''Pack'', ''install'', ''mods'', ''mod.jar'']
        = None"
proof -
  have "map lower (hash upper_hash) = ''da39a3ee5e6b4b0d3255bfef95601890afd80709''"
    by (simp add: upper_hash_def lower_def)
  moreover have "hexdigest (sha1 (world example_manifest) [])
                   = ''da39a3ee5e6b4b0d3255bfef95601890afd80709''"
    by (simp add: world_def hexdigest_empty)
  moreover have "urlopen (world example_manifest) [] (url upper_hash) = Some []"
    by (simp add: world_def upper_hash_def)
  moreover have "downloadMods (world example_manifest) Pack_zip [upper_hash] start
       = (Some HashMismatch,
          \<lparr>root = mods_made, fetched = [''https://cdn.modrinth.com/data/abc/mod.jar'']\<rparr>)"
    unfolding downloadMods_def install_dir_world
    by (simp add: start_def install_made_def [symmetric] download_upper)
  ultimately show ?thesis
    using lookup_mods_made by simp
qed

text \<open>
  Claim C2, amended. The comparison is equality of strings: for a resource that is
  processed and whose bytes are fetched, the file is written with these bytes when the
  digest in lower-case hexadecimal equals the expected hash character by character, and
  the run leaves with \<^verbatim>\<open>Hash mismatch\<close>, nothing written, when it does not. By
  \<open>hexdigest_lower\<close> the digest has no capital letter, so an expected hash that has one is
  never equal to it.
\<close>

theorem downloadMods_compares_exactly:
  assumes "downloadMods ev modpack pre s = (None, s1)"
    and "file = joinpath (install_dir ev modpack) (resource.path r)"
    and "mkdir True (root s1) (butlast file) = Some r1"
    and "lookup r1 file = None"
    and "urlopen ev (fetched s1) (url r) = Some data"
  shows "if hexdigest (sha1 ev data) = hash r
         then (\<exists>r2. downloadMods ev modpack (pre @ [r]) s
                       = (None, \<lparr>root = r2, fetched = fetched s1 @ [url r]\<rparr>)
                   \<and> lookup r2 file = Some (File data))
         else downloadMods ev modpack (pre @ [r]) s
                = (Some HashMismatch, \<lparr>root = r1, fetched = fetched s1 @ [url r]\<rparr>)"
proof (cases "hexdigest (sha1 ev data) = hash r")
  case True
  obtain es where "lookup r1 (butlast file) = Some (Dir es)"
    using mkdir_lookup [OF assms(3)] by blast
  moreover have "file \<noteq> []"
    using assms(4) by auto
  ultimately obtain r2 where r2: "write_file r1 file data = Some r2"
      "lookup r2 file = Some (File data)"
    using write_file_new [OF _ assms(4)] by blast
  have "download_one ev (install_dir ev modpack) r s1
          = (None, \<lparr>root = r2, fetched = fetched s1 @ [url r]\<rparr>)"
    using assms(2-5) True r2 by (simp add: download_one_def)
  then have "downloadMods ev modpack (pre @ [r]) s
               = (None, \<lparr>root = r2, fetched = fetched s1 @ [url r]\<rparr>)"
    using assms(1) by (simp add: downloadMods_append)
  with r2 True show ?thesis by auto
next
  case False
  have "download_one ev (install_dir ev modpack) r s1
          = (Some HashMismatch, \<lparr>root = r1, fetched = fetched s1 @ [url r]\<rparr>)"
    using assms(2-5) False by (simp add: download_one_def)
  then have "downloadMods ev modpack (pre @ [r]) s
           = (Some HashMismatch, \<lparr>root = r1, fetched = fetched s1 @ [url r]\<rparr>)"
    using assms(1) by (simp add: downloadMods_append)
  with False show ?thesis by simp
qed

theorem downloadMods_compares_exactly_witness:
  "hexdigest (sha1 (world example_manifest) []) = hash mod_jar
   \<and> (\<exists>r2. downloadMods (world example_manifest) Pack_zip ([] @ [mod_jar]) start
              = (None, \<lparr>root = r2, fetched = [''https://cdn.modrinth.com/data/abc/mod.jar'']\<rparr>)
          \<and> lookup r2 [''home'', ''modpacktools'', ''legacyinstall'', ''Pack'', ''install'',
                        ''mods'', ''mod.jar''] = Some (File []))"
proof -
  let ?ev = "world example_manifest"
  let ?file = "[''home'', ''modpacktools'', ''legacyinstall'', ''Pack'', ''install'', ''mods'', ''mod.jar'']"
  have a: "downloadMods ?ev Pack_zip [] start = (None, \<lparr>root = install_made, fetched = []\<rparr>)"
    by (rule downloadMods_none)
  have b: "?file = joinpath (install_dir ?ev Pack_zip) (resource.path mod_jar)"
    by (simp add: install_dir_world join_mod_jar mod_jar_def)
  have c: "mkdir True (root \<lparr>root = install_made, fetched = []\<rparr>) (butlast ?file) = Some mods_made"
    using mkdir_mods by simp
  have d: "lookup mods_made ?file = None"
    by (rule lookup_mods_made)
  have e: "urlopen ?ev (fetched \<lparr>root = install_made, fetched = []\<rparr>) (url mod_jar) = Some []"
    by (simp add: world_def mod_jar_def)
  have f: "hexdigest (sha1 ?ev []) = hash mod_jar"
    by (simp add: world_def hexdigest_empty mod_jar_def)
  show ?thesis
    using f downloadMods_compares_exactly [OF a b c d e]
    by (simp add: mod_jar_def)
qed

text \<open>
  Claim C5. When the destination of a resource exists at the moment the loop reaches it
  (the resources before it processed without error), the turn of the loop changes
  nothing: the state after it is the state before it, so no request is made (the log of
  requests is the same), no digest is compared (no error can arise) and the file system,
  with the existing file, is the same.
\<close>

theorem downloadMods_skips_existing:
  assumes "downloadMods ev modpack pre s = (None, s1)"
    and "lookup (root s1) (joinpath (install_dir ev modpack) (resource.path r)) = Some n"
  shows "downloadMods ev modpack (pre @ [r]) s = (None, s1)"
proof -
  let ?file = "joinpath (install_dir ev modpack) (resource.path r)"
  obtain es where es: "root s1 = Dir es"
    using downloadMods_Dir [OF assms(1)] by blast
  have "\<exists>ds. lookup (root s1) (butlast ?file) = Some (Dir ds)"
  proof (cases "?file = []")
    case True
    then show ?thesis using es by simp
  next
    case False
    then show ?thesis using lookup_butlast [OF assms(2)] by simp
  qed
  then have "mkdir True (root s1) (butlast ?file) = Some (root s1)"
    using mkdir_existing by blast
  then have "download_one ev (install_dir ev modpack) r s1 = (None, s1)"
    using assms(2) by (simp add: download_one_def)
  then show ?thesis
    using assms(1) by (simp add: downloadMods_append)
qed

theorem downloadMods_skips_existing_witness:
  "downloadMods (world example_manifest) Pack_zip [] \<lparr>root = mod_installed, fetched = []\<rparr>
      = (None, \<lparr>root = mod_installed, fetched = []\<rparr>)
   \<and> lookup mod_installed (joinpath (install_dir (world example_manifest) Pack_zip)
         (resource.path wrong_hash)) = Some (File [])
   \<and> downloadMods (world example_manifest) Pack_zip ([] @ [wrong_hash])
        \<lparr>root = mod_installed, fetched = []\<rparr>
      = (None, \<lparr>root = mod_installed, fetched = []\<rparr>)"
proof -
  let ?ev = "world example_manifest"
  let ?s = "\<lparr>root = mod_installed, fetched = []\<rparr>"
  have a: "downloadMods ?ev Pack_zip [] ?s = (None, ?s)"
    by (simp add: downloadMods_def install_dir_world mod_installed_def)
  have b: "lookup (root ?s) (joinpath (install_dir ?ev Pack_zip) (resource.path wrong_hash))
             = Some (File [])"
    by (simp add: install_dir_world wrong_hash_def join_mod_jar mod_installed_def)
  show ?thesis
    using a b downloadMods_skips_existing [OF a b] by simp
qed

subsection \<open>The loader and the run\<close>

lemma extract_archive_fetched: "extract_archive ev m z s = (r, s') \<Longrightarrow> fetched s' = fetched s"
  by (auto simp: extract_archive_def Let_def split: if_splits option.splits)

lemma loadModpack_fetched: "loadModpack ev m s = (r, s') \<Longrightarrow> fetched s' = fetched s"
  by (auto simp: loadModpack_def split: option.splits node.splits if_splits prod.splits
      dest: extract_archive_fetched)

lemma mkdir_cwd: "mkdir True (root start) (cwd (world m)) = Some cwd_made"
  by (simp add: cwd_world start_def cwd_made_def)

lemma lookup_Pack_zip: "lookup cwd_made Pack_zip = Some (File ''PK'')"
  by (simp add: cwd_made_def Pack_zip_def)

lemma lookup_Pack_zip_over: "lookup with_overrides Pack_zip = Some (File ''PK'')"
  by (simp add: with_overrides_def Pack_zip_def)

lemma extract_fresh:
  "extract_archive (world m) Pack_zip ''PK'' \<lparr>root = cwd_made, fetched = []\<rparr>
     = (None, \<lparr>root = unpacked, fetched = []\<rparr>)"
  unfolding extract_archive_def pack_dir_world Let_def
  by (simp add: cwd_made_def unpacked_def world_def)

lemma lookup_index_unpacked:
  "lookup unpacked (joinpath (pack_dir (world m) Pack_zip) ''modrinth.index.json'')
     = Some (File ''{}'')"
  by (simp add: pack_dir_world join_index unpacked_def)

lemma read_index_unpacked:
  "read_index (world m) unpacked (pack_dir (world m) Pack_zip)
     = (if formatVersion m \<noteq> 1 then Inl UnsupportedVersion else Inr m)"
  by (simp add: read_index_def lookup_index_unpacked) (simp add: world_def)

lemma loadModpack_fresh:
  "loadModpack (world m) Pack_zip \<lparr>root = cwd_made, fetched = []\<rparr>
     = (if formatVersion m \<noteq> 1 then Inl UnsupportedVersion else Inr m,
        \<lparr>root = unpacked, fetched = []\<rparr>)"
  by (simp add: loadModpack_def lookup_Pack_zip extract_fresh read_index_unpacked)
     (simp add: world_def)

text \<open>
  Claim C3. Let the archive load to the manifest \<open>data\<close>, each of whose files has a first
  download URL with a network location and a \<^verbatim>\<open>sha1\<close> hash. If the network location of
  the first URL of some file is not an accepted domain, the run leaves with
  \<^verbatim>\<open>Unsupported domain\<close> in the state in which the archive was loaded: \<^verbatim>\<open>getMods\<close> ends
  before \<^verbatim>\<open>downloadMods\<close> is called, and the log of requests is as it was at the start.
\<close>

theorem main_rejects_before_download:
  assumes "mkdir True (root s) (cwd ev) = Some r0"
    and "loadModpack ev modpack (s\<lparr>root := r0\<rparr>) = (Inr data, s1)"
    and "\<forall>e \<in> set (files data). \<exists>u us h d. downloads e = u # us
           \<and> hashes e ''sha1'' = Some h
           \<and> urlparse_netloc (check_bracketed_host ev) u = Inr d"
    and "\<exists>e \<in> set (files data). \<exists>u us d. downloads e = u # us
           \<and> urlparse_netloc (check_bracketed_host ev) u = Inr d
           \<and> d \<notin> set ACCEPTED_DOMAINS"
  shows "main ev modpack s = (Some UnapprovedDomain, s1) \<and> fetched s1 = fetched s"
proof -
  have "getMods (check_bracketed_host ev) data = Inl UnapprovedDomain"
    unfolding getMods_def by (rule getMods_loop_unapproved [OF assms(3,4)])
  then have "main ev modpack s = (Some UnapprovedDomain, s1)"
    using assms(1,2) by (simp add: main_def)
  moreover have "fetched s1 = fetched s"
    using loadModpack_fetched [OF assms(2)] by simp
  ultimately show ?thesis by simp
qed

theorem main_rejects_before_download_witness:
  "loadModpack (world bad_manifest) Pack_zip (start\<lparr>root := cwd_made\<rparr>)
     = (Inr bad_manifest, \<lparr>root = unpacked, fetched = []\<rparr>)
   \<and> main (world bad_manifest) Pack_zip start
     = (Some UnapprovedDomain, \<lparr>root = unpacked, fetched = []\<rparr>)
   \<and> fetched start = []"
proof -
  let ?ev = "world bad_manifest"
  have a: "mkdir True (root start) (cwd ?ev) = Some cwd_made"
    by (rule mkdir_cwd)
  have b: "loadModpack ?ev Pack_zip (start\<lparr>root := cwd_made\<rparr>)
     = (Inr bad_manifest, \<lparr>root = unpacked, fetched = []\<rparr>)"
    using loadModpack_fresh [of bad_manifest] by (simp add: start_def bad_manifest_def)
  have c: "\<forall>e \<in> set (files bad_manifest). \<exists>u us h d. downloads e = u # us
           \<and> hashes e ''sha1'' = Some h
           \<and> urlparse_netloc (check_bracketed_host ?ev) u = Inr d"
    by (simp add: bad_manifest_def example_entry_def evil_entry_def netloc_plain netloc_other)
  have d: "\<exists>e \<in> set (files bad_manifest). \<exists>u us d. downloads e = u # us
           \<and> urlparse_netloc (check_bracketed_host ?ev) u = Inr d
           \<and> d \<notin> set ACCEPTED_DOMAINS"
    by (simp add: bad_manifest_def example_entry_def evil_entry_def netloc_plain netloc_other
        ACCEPTED_DOMAINS_def)
  show ?thesis
    using b main_rejects_before_download [OF a b c d] by (simp add: start_def)
qed

text \<open>
  Claim C7. When the archive is a zip file, is unpacked (or was before) and its index
  parses to a manifest whose format version is not 1, \<^verbatim>\<open>loadModpack\<close> leaves with
  \<^verbatim>\<open>Unsupported format version\<close>, and so does the run, in the state in which the index was
  read: \<^verbatim>\<open>getMods\<close> and \<^verbatim>\<open>downloadMods\<close> are not reached, nothing is requested.
\<close>

theorem main_unsupported_version:
  assumes "mkdir True (root s) (cwd ev) = Some r0"
    and "lookup r0 modpack = Some (File z)" and "is_zipfile ev z"
    and "extract_archive ev modpack z (s\<lparr>root := r0\<rparr>) = (None, s1)"
    and "lookup (root s1) (joinpath (pack_dir ev modpack) ''modrinth.index.json'')
           = Some (File b)"
    and "json_load ev b = Some data" and "formatVersion data \<noteq> 1"
  shows "loadModpack ev modpack (s\<lparr>root := r0\<rparr>) = (Inl UnsupportedVersion, s1)
         \<and> main ev modpack s = (Some UnsupportedVersion, s1)
         \<and> fetched s1 = fetched s"
proof -
  have "read_index ev (root s1) (pack_dir ev modpack) = Inl UnsupportedVersion"
    using assms(5-7) by (simp add: read_index_def)
  then have l: "loadModpack ev modpack (s\<lparr>root := r0\<rparr>) = (Inl UnsupportedVersion, s1)"
    using assms(2-4) by (simp add: loadModpack_def)
  then have "main ev modpack s = (Some UnsupportedVersion, s1)"
    using assms(1) by (simp add: main_def)
  moreover have "fetched s1 = fetched s"
    using extract_archive_fetched [OF assms(4)] by simp
  ultimately show ?thesis using l by simp
qed

theorem main_unsupported_version_witness:
  "main (world v2_manifest) Pack_zip start
     = (Some UnsupportedVersion, \<lparr>root = unpacked, fetched = []\<rparr>)
   \<and> formatVersion v2_manifest = 2"
proof -
  let ?ev = "world v2_manifest"
  have a: "mkdir True (root start) (cwd ?ev) = Some cwd_made"
    by (rule mkdir_cwd)
  have b: "lookup cwd_made Pack_zip = Some (File ''PK'')"
    by (rule lookup_Pack_zip)
  have c: "is_zipfile ?ev ''PK''"
    by (simp add: world_def)
  have d: "extract_archive ?ev Pack_zip ''PK'' (start\<lparr>root := cwd_made\<rparr>)
             = (None, \<lparr>root = unpacked, fetched = []\<rparr>)"
    using extract_fresh [of v2_manifest] by (simp add: start_def)
  have e: "lookup (root \<lparr>root = unpacked, fetched = []\<rparr>)
             (joinpath (pack_dir ?ev Pack_zip) ''modrinth.index.json'') = Some (File ''{}'')"
    using lookup_index_unpacked [of v2_manifest] by simp
  have f: "json_load ?ev ''{}'' = Some v2_manifest"
    by (simp add: world_def)
  have g: "formatVersion v2_manifest \<noteq> 1"
    by (simp add: v2_manifest_def)
  show ?thesis
    using main_unsupported_version [OF a b c d e f g] by (simp add: v2_manifest_def)
qed

text \<open>
  Claim C6. The pack directory is \<^verbatim>\<open>cwd / modpack.stem / 'pack'\<close>. For an archive that is
  a zip file: if that directory exists, \<^verbatim>\<open>loadModpack\<close> returns the state it was given,
  unchanged, and goes on to read the index in the existing directory; if it does not
  exist, can be made and the archive unpacks, the entries of the archive are the content
  of the directory afterwards.
\<close>

theorem loadModpack_extracts_once:
  assumes "lookup (root s) modpack = Some (File z)" and "is_zipfile ev z"
    and "modpack_dir = joinpath (joinpath (cwd ev) (stem modpack)) ''pack''"
  shows "if lookup (root s) modpack_dir \<noteq> None
         then loadModpack ev modpack s = (read_index ev (root s) modpack_dir, s)
         else (\<forall>r1 es. mkdir False (root s) modpack_dir = Some r1 \<longrightarrow> extractall ev z = Some es
                 \<longrightarrow> (\<exists>r2. loadModpack ev modpack s = (read_index ev r2 modpack_dir, s\<lparr>root := r2\<rparr>)
                          \<and> lookup r2 modpack_dir = Some (Dir es)))"
proof (cases "lookup (root s) modpack_dir \<noteq> None")
  case True
  have pd: "pack_dir ev modpack = modpack_dir"
    using assms(3) by (simp add: pack_dir_def)
  have "extract_archive ev modpack z s = (None, s)"
    using True by (auto simp: extract_archive_def pd)
  then show ?thesis
    using assms(1,2) True by (simp add: loadModpack_def pd)
next
  case False
  have pd: "pack_dir ev modpack = modpack_dir"
    using assms(3) by (simp add: pack_dir_def)
  have "\<exists>r2. loadModpack ev modpack s = (read_index ev r2 modpack_dir, s\<lparr>root := r2\<rparr>)
           \<and> lookup r2 modpack_dir = Some (Dir es)"
    if r1: "mkdir False (root s) modpack_dir = Some r1" and es: "extractall ev z = Some es"
    for r1 es
  proof -
    let ?r2 = "modify (\<lambda>_. Dir es) r1 modpack_dir"
    have "extract_archive ev modpack z s = (None, s\<lparr>root := ?r2\<rparr>)"
      using False r1 es by (simp add: extract_archive_def pd)
    then have "loadModpack ev modpack s = (read_index ev ?r2 modpack_dir, s\<lparr>root := ?r2\<rparr>)"
      using assms(1,2) by (simp add: loadModpack_def pd)
    moreover obtain ds where "lookup r1 modpack_dir = Some (Dir ds)"
      using mkdir_lookup [OF r1] by blast
    then have "lookup ?r2 modpack_dir = Some (Dir es)"
      by (rule lookup_modify)
    ultimately show ?thesis by blast
  qed
  with False show ?thesis by simp
qed

theorem loadModpack_extracts_once_witness:
  "loadModpack (world example_manifest) Pack_zip \<lparr>root = with_overrides, fetched = []\<rparr>
     = (Inr example_manifest, \<lparr>root = with_overrides, fetched = []\<rparr>)
   \<and> (\<exists>r2. loadModpack (world example_manifest) Pack_zip \<lparr>root = cwd_made, fetched = []\<rparr>
         = (read_index (world example_manifest) r2
              [''home'', ''modpacktools'', ''legacyinstall'', ''Pack'', ''pack''],
            \<lparr>root = r2, fetched = []\<rparr>)
       \<and> lookup r2 [''home'', ''modpacktools'', ''legacyinstall'', ''Pack'', ''pack'']
           = Some (Dir [(''modrinth.index.json'', File ''{}'')]))"
proof -
  let ?ev = "world example_manifest"
  let ?pd = "[''home'', ''modpacktools'', ''legacyinstall'', ''Pack'', ''pack'']"
  have z: "is_zipfile ?ev ''PK''"
    by (simp add: world_def)
  have pd: "?pd = joinpath (joinpath (cwd ?ev) (stem Pack_zip)) ''pack''"
    using pack_dir_world [of example_manifest] by (simp add: pack_dir_def)
  have a: "lookup (root \<lparr>root = with_overrides, fetched = []\<rparr>) Pack_zip = Some (File ''PK'')"
    using lookup_Pack_zip_over by simp
  have b: "lookup (root \<lparr>root = cwd_made, fetched = []\<rparr>) Pack_zip = Some (File ''PK'')"
    using lookup_Pack_zip by simp
  have "read_index ?ev with_overrides ?pd = Inr example_manifest"
    by (simp add: read_index_def join_index with_overrides_def)
       (simp add: world_def example_manifest_def)
  moreover have "lookup with_overrides ?pd \<noteq> None"
    by (simp add: with_overrides_def)
  ultimately have first: "loadModpack ?ev Pack_zip \<lparr>root = with_overrides, fetched = []\<rparr>
     = (Inr example_manifest, \<lparr>root = with_overrides, fetched = []\<rparr>)"
    using loadModpack_extracts_once [OF a z pd] by simp
  have "lookup cwd_made ?pd = None"
    by (simp add: cwd_made_def)
  moreover have "mkdir False cwd_made ?pd \<noteq> None"
    by (simp add: cwd_made_def)
  moreover have "extractall ?ev ''PK'' = Some [(''modrinth.index.json'', File ''{}'')]"
    by (simp add: world_def)
  ultimately have second: "\<exists>r2. loadModpack ?ev Pack_zip \<lparr>root = cwd_made, fetched = []\<rparr>
         = (read_index ?ev r2 ?pd, \<lparr>root = r2, fetched = []\<rparr>)
       \<and> lookup r2 ?pd = Some (Dir [(''modrinth.index.json'', File ''{}'')])"
    using loadModpack_extracts_once [OF b z pd] by auto
  from first second show ?thesis by blast
qed

subsection \<open>The overlay\<close>






lemma joinpath_name:
  "joinpath base ''modrinth.index.json'' = base @ [''modrinth.index.json'']"
  "joinpath base ''overrides'' = base @ [''overrides'']"
  by (simp_all add: joinpath_def parts_def)


lemma copyOverrides_absent:
  "lookup (root s) (joinpath (pack_dir ev modpack) ''overrides'') = None
     \<Longrightarrow> copyOverrides ev modpack s = (None, s)"
  by (simp add: copyOverrides_def)


lemma overrides_world:
  "joinpath (pack_dir (world m) Pack_zip) ''overrides''
     = [''home'', ''modpacktools'', ''legacyinstall'', ''Pack'', ''pack'', ''overrides'']"
  by (simp add: pack_dir_world joinpath_name)

lemma copyOverrides_with_overrides:
  "copyOverrides (world m) Pack_zip \<lparr>root = with_overrides, fetched = []\<rparr>
     = (None, \<lparr>root = overlaid, fetched = []\<rparr>)"
  unfolding copyOverrides_def overrides_world pack_dir_world install_dir_world Let_def
    joinpath_name copytree_def shutil_copy_def read_file_def
  by (simp add: with_overrides_def overlaid_def)


lemma getMods_scenario: "getMods chk scenario_manifest = Inr [mod_jar]"
  by (simp add: getMods_def scenario_manifest_def getMod_def example_entry_def netloc_plain
      ACCEPTED_DOMAINS_def mod_jar_def)

lemma downloadMods_scenario:
  "downloadMods (world m) Pack_zip [mod_jar] \<lparr>root = unpacked, fetched = []\<rparr>
     = (None, \<lparr>root = installed, fetched = [''https://cdn.modrinth.com/data/abc/mod.jar'']\<rparr>)"
  unfolding downloadMods_def install_dir_world download_one_def Let_def downloadMods_loop.simps
  by (simp add: mod_jar_def join_mod_jar unpacked_def installed_def world_def hexdigest_empty)

text \<open>
  Claim C8 does not hold of the code: \<^verbatim>\<open>copyOverrides\<close> returns at \<^verbatim>\<open>No overrides,
  skipping copy\<close>, before the line that copies \<^verbatim>\<open>modrinth.index.json\<close> \<^emph>\<open>for reference\<close>.
  The run of the scenario (one file, no overrides in the archive) ends without error, and
  the install directory has no \<^verbatim>\<open>modrinth.index.json\<close>, while the pack directory has it.
\<close>

theorem main_without_overrides_copies_no_manifest:
  "main (world scenario_manifest) Pack_zip start
     = (None, \<lparr>root = installed, fetched = [''https://cdn.modrinth.com/data/abc/mod.jar'']\<rparr>)
   \<and> lookup installed
        [''home'', ''modpacktools'', ''legacyinstall'', ''Pack'', ''pack'', ''overrides''] = None
   \<and> lookup installed
        [''home'', ''modpacktools'', ''legacyinstall'', ''Pack'', ''pack'', ''modrinth.index.json'']
       = Some (File ''{}'')
   \<and> lookup installed
        [''home'', ''modpacktools'', ''legacyinstall'', ''Pack'', ''install'', ''modrinth.index.json'']
       = None"
proof -
  let ?ev = "world scenario_manifest"
  have l: "loadModpack ?ev Pack_zip (start\<lparr>root := cwd_made\<rparr>)
             = (Inr scenario_manifest, \<lparr>root = unpacked, fetched = []\<rparr>)"
    using loadModpack_fresh [of scenario_manifest] by (simp add: start_def scenario_manifest_def)
  have o: "lookup installed
        [''home'', ''modpacktools'', ''legacyinstall'', ''Pack'', ''pack'', ''overrides''] = None"
    by (simp add: installed_def)
  then have c: "copyOverrides ?ev Pack_zip
               \<lparr>root = installed, fetched = [''https://cdn.modrinth.com/data/abc/mod.jar'']\<rparr>
             = (None, \<lparr>root = installed, fetched = [''https://cdn.modrinth.com/data/abc/mod.jar'']\<rparr>)"
    by (simp add: copyOverrides_absent overrides_world)
  have "main ?ev Pack_zip start
     = (None, \<lparr>root = installed, fetched = [''https://cdn.modrinth.com/data/abc/mod.jar'']\<rparr>)"
    unfolding main_def
    by (simp add: mkdir_cwd l getMods_scenario downloadMods_scenario c)
  then show ?thesis
    using o by (simp add: installed_def)
qed




end
